theory Spec2Isabelle
  imports Complex_Main "HOL-Library.List_Lexorder" "HOL-Library.Char_ord" "HOL-Library.Multiset"
begin

section \<open>The Huobi exchange adapter (api/huobi.go)\<close>

text \<open>
  A shallow embedding of \<^verbatim>\<open>api/huobi.go\<close>. The adapter's struct is a record that is
  passed in and returned updated; the calls it makes on its collaborators (HTTP
  transport, JSON decoding, numeric coercion, formatting, the clock) are fields of an
  environment record, so every theorem holds for whatever the collaborators answer.
  Go's \<^verbatim>\<open>float64\<close> is the type parameter \<open>'f\<close>: the adapter stores and copies such
  values, compares a price with zero and takes one midpoint, so \<open>'f\<close> only has to
  carry \<open>0\<close>, \<open><\<close>, \<open>+\<close>, \<open>/\<close> and numerals, with no law assumed of them. \<^verbatim>\<open>int\<close> and
  \<^verbatim>\<open>int64\<close> values are only compared, never computed with, and are modelled by \<open>int\<close>.
\<close>

subsection \<open>Domain types\<close>

text \<open>The candlestick bar (\<^verbatim>\<open>Record\<close>), with the fields \<^verbatim>\<open>GetRecords\<close> fills.\<close>

record 'f Record =
  Time :: int
  Open :: 'f
  High :: 'f
  Low :: 'f
  Close :: 'f
  Volume :: 'f

text \<open>
  \<^verbatim>\<open>Order\<close>, \<^verbatim>\<open>Account\<close>, \<^verbatim>\<open>MarketOrder\<close>, \<^verbatim>\<open>Ticker\<close> and \<^verbatim>\<open>Option\<close> are declared elsewhere in
  the package; they are given here with the fields this file reads and writes. The
  fields of \<^verbatim>\<open>MarketOrder\<close> and the \<^verbatim>\<open>Buy\<close> and \<^verbatim>\<open>Sell\<close> fields of \<^verbatim>\<open>Ticker\<close> carry a prime,
  since \<^verbatim>\<open>Order\<close> and the adapter's operations have these names already.
\<close>

record 'f Order =
  ID :: string
  Price :: 'f
  Amount :: 'f
  DealAmount :: 'f
  OrderType :: int
  StockType :: string

record 'f Account =
  Total :: 'f
  Net :: 'f
  Balance :: 'f
  FrozenBalance :: 'f
  BTC :: 'f
  FrozenBTC :: 'f
  LTC :: 'f
  FrozenLTC :: 'f
  Stock :: 'f
  FrozenStock :: 'f

record 'f MarketOrder =
  Price' :: 'f
  Amount' :: 'f

record 'f Ticker =
  Bids :: "'f MarketOrder list"
  Asks :: "'f MarketOrder list"
  Buy' :: 'f
  Sell' :: 'f
  Mid :: 'f

record Option =
  Type :: string
  AccessKey :: string
  SecretKey :: string
  MainStock :: string

text \<open>
  Errors: one handed back by a collaborator (\<^verbatim>\<open>post\<close>, \<^verbatim>\<open>get\<close>, \<^verbatim>\<open>simplejson.NewJson\<close>), or
  one built by \<^verbatim>\<open>fmt.Errorf\<close> from a format and the vendor's code.
\<close>

datatype error = Failure string | Errorf string int

text \<open>The run-time panics of Go that the modelled code can raise.\<close>

datatype panic = IndexOutOfRange | SliceBoundsOutOfRange

subsection \<open>Collaborators and the adapter's state\<close>

text \<open>
  A request handed to the HTTP transport, and a value passed to the logger
  (\<^verbatim>\<open>interface{}\<close> arguments: a string, an error, or a decoded JSON value).
\<close>

datatype request = POST string "string list" | GET string

datatype 'j arg = Str string | Err error | Json 'j

type_synonym ('j, 'f) entry = "string \<times> 'f \<times> 'f \<times> 'j arg list"

text \<open>
  What the file calls and does not define. \<open>post\<close>, \<open>get\<close> and \<open>signMd5\<close> are functions
  of the package that live in another file; \<open>now\<close> is \<^verbatim>\<open>time.Now().Unix()\<close>; the others
  are \<^verbatim>\<open>go-simplejson\<close> (on the decoded value \<open>'j\<close>), \<^verbatim>\<open>conver\<close>, \<^verbatim>\<open>fmt\<close> and \<^verbatim>\<open>strings\<close>.
  \<^verbatim>\<open>j.Interface()\<close> is the decoded value itself, so \<open>IntMust\<close>, \<open>Float64Must\<close> and
  \<open>Sprint\<close> take a \<open>'j\<close>. \<open>MustString\<close> takes its optional default as a list.
\<close>

record ('j, 'f) env =
  post :: "string \<Rightarrow> string list \<Rightarrow> error + string"
  get :: "string \<Rightarrow> error + string"
  signMd5 :: "string list \<Rightarrow> string"
  now :: int
  NewJson :: "string \<Rightarrow> error + 'j"
  Get :: "'j \<Rightarrow> string \<Rightarrow> 'j"
  GetIndex :: "'j \<Rightarrow> nat \<Rightarrow> 'j"
  MustArray :: "'j \<Rightarrow> 'j list"
  MustString :: "'j \<Rightarrow> string list \<Rightarrow> string"
  MustFloat64 :: "'j \<Rightarrow> 'f"
  IntMust :: "'j \<Rightarrow> int"
  Int64Must :: "string \<Rightarrow> int"
  Float64Must :: "'j \<Rightarrow> 'f"
  Sprint :: "'j \<Rightarrow> string"
  SprintFloat :: "'f \<Rightarrow> string"
  SprintfOrder :: "'f Order \<Rightarrow> string"
  ToLower :: "string \<Rightarrow> string"

text \<open>
  The struct \<^verbatim>\<open>Huobi\<close>. \<open>log'\<close> holds the calls of \<^verbatim>\<open>e.log.Do\<close> so far, oldest first.
  \<open>wire\<close> is not a field of the Go struct: it lists the requests handed to \<^verbatim>\<open>post\<close> and
  \<^verbatim>\<open>get\<close> so far, which makes a network call an observable change of the state.
  \<open>records\<close> is a Go map read with \<^verbatim>\<open>e.records[period]\<close>, which gives the nil slice for
  a missing key.
\<close>

record ('j, 'f) Huobi =
  stockMap :: "string \<rightharpoonup> string"
  orderTypeMap :: "string \<rightharpoonup> int"
  periodMap :: "string \<rightharpoonup> string"
  records :: "string \<Rightarrow> 'f Record list"
  host :: string
  log' :: "('j, 'f) entry list"
  option :: Option
  wire :: "request list"

text \<open>Reading a Go map of strings or of ints: the zero value for a missing key.\<close>

definition lookupString :: "(string \<rightharpoonup> string) \<Rightarrow> string \<Rightarrow> string" where
  "lookupString m k = (case m k of Some v \<Rightarrow> v | None \<Rightarrow> [])"

definition lookupInt :: "(string \<rightharpoonup> int) \<Rightarrow> string \<Rightarrow> int" where
  "lookupInt m k = (case m k of Some v \<Rightarrow> v | None \<Rightarrow> 0)"

text \<open>\<^verbatim>\<open>fmt.Sprint\<close> of an integer: its decimal digits, with a minus sign when negative.\<close>

fun digits :: "nat \<Rightarrow> string" where
  "digits n = (if n < 10 then [''0123456789'' ! n]
               else digits (n div 10) @ [''0123456789'' ! (n mod 10)])"

declare digits.simps [simp del]

definition SprintInt :: "int \<Rightarrow> string" where
  "SprintInt i = (if i < 0 then CHR ''-'' # digits (nat (- i)) else digits (nat i))"

text \<open>\<^verbatim>\<open>e.log.Do(kind, price, amount, msgs...)\<close>.\<close>

definition Do :: "('j, 'f) Huobi \<Rightarrow> string \<Rightarrow> 'f \<Rightarrow> 'f \<Rightarrow> 'j arg list \<Rightarrow> ('j, 'f) Huobi" where
  "Do e kind price amount msgs = e\<lparr>log' := log' e @ [(kind, price, amount, msgs)]\<rparr>"

definition NewHuobi :: "Option \<Rightarrow> ('j, 'f) Huobi" where
  "NewHuobi opt =
     (let e = \<lparr>stockMap = [''BTC'' \<mapsto> ''1'', ''LTC'' \<mapsto> ''2''],
               orderTypeMap = [''1'' \<mapsto> 1, ''2'' \<mapsto> - 1, ''3'' \<mapsto> 2, ''4'' \<mapsto> - 2],
               periodMap = [''M'' \<mapsto> ''001'', ''M5'' \<mapsto> ''005'', ''M15'' \<mapsto> ''015'',
                 ''M30'' \<mapsto> ''030'', ''H'' \<mapsto> ''060'', ''D'' \<mapsto> ''100'', ''W'' \<mapsto> ''200''],
               records = (\<lambda>period. []),
               host = ''https://api.huobi.com/apiv3'',
               log' = [],
               option = opt,
               wire = []\<rparr>
      in if stockMap e (MainStock (option e)) = None
         then e\<lparr>option := (option e)\<lparr>MainStock := ''BTC''\<rparr>\<rparr>
         else e)"

definition GetMainStock :: "('j, 'f) Huobi \<Rightarrow> string" where
  "GetMainStock e = MainStock (option e)"

definition SetMainStock :: "('j, 'f) Huobi \<Rightarrow> string \<Rightarrow> ('j, 'f) Huobi \<times> string" where
  "SetMainStock e stock =
     (let e1 = (if stockMap e stock \<noteq> None then e\<lparr>option := (option e)\<lparr>MainStock := stock\<rparr>\<rparr> else e)
      in (e1, MainStock (option e1)))"

subsection \<open>getAuthJSON: signing and posting (lines 60--73)\<close>

text \<open>
  \<^verbatim>\<open>sort.Strings\<close> orders strings byte by byte, which is the lexicographic order of
  \<open>char list\<close>; equal strings cannot be told apart, so its result is the one sorted
  arrangement, \<open>sort\<close>.
\<close>

definition getAuthJSON :: "('j, 'f) env \<Rightarrow> ('j, 'f) Huobi \<Rightarrow> string \<Rightarrow> string list \<Rightarrow> string list
    \<Rightarrow> ('j, 'f) Huobi \<times> (error + 'j)" where
  "getAuthJSON env e url params optionals =
     (let params1 = params @ [''access_key='' @ AccessKey (option e),
                              ''secret_key='' @ SecretKey (option e),
                              ''created='' @ SprintInt (now env)];
          params2 = sort params1;
          params3 = params2 @ [''sign='' @ signMd5 env params2];
          e1 = e\<lparr>wire := wire e @ [POST url (params3 @ optionals)]\<rparr>
      in case post env url (params3 @ optionals) of
           Inl err \<Rightarrow> (e1, Inl err)
         | Inr resp \<Rightarrow> (e1, NewJson env resp))"

subsection \<open>The authenticated operations\<close>

definition GetAccount :: "('j, 'f::zero) env \<Rightarrow> ('j, 'f) Huobi \<Rightarrow> ('j, 'f) Huobi \<times> 'f Account option" where
  "GetAccount env e =
     (let params = [''method=get_account_info'']
      in case getAuthJSON env e (host e) params [''market=cny''] of
           (e1, Inl err) \<Rightarrow> (Do e1 ''error'' 0 0 [Str ''GetAccount() error, '', Err err], None)
         | (e1, Inr json) \<Rightarrow>
             (let code = IntMust env (Get env json ''code'')
              in if code > 0 then
                   (Do e1 ''error'' 0 0 [Err (Errorf ''GetAccount() error, the error number is %v'' code)], None)
                 else
                   (let account = \<lparr>Total = Float64Must env (Get env json ''total''),
                                   Net = Float64Must env (Get env json ''net_asset''),
                                   Balance = Float64Must env (Get env json ''available_cny_display''),
                                   FrozenBalance = Float64Must env (Get env json ''frozen_cny_display''),
                                   BTC = Float64Must env (Get env json ''available_btc_display''),
                                   FrozenBTC = Float64Must env (Get env json ''frozen_btc_display''),
                                   LTC = Float64Must env (Get env json ''available_ltc_display''),
                                   FrozenLTC = Float64Must env (Get env json ''frozen_ltc_display''),
                                   Stock = 0,
                                   FrozenStock = 0\<rparr>
                    in if MainStock (option e1) = ''BTC'' then
                         (e1, Some (account\<lparr>Stock := BTC account, FrozenStock := FrozenBTC account\<rparr>))
                       else if MainStock (option e1) = ''LTC'' then
                         (e1, Some (account\<lparr>Stock := LTC account, FrozenStock := FrozenLTC account\<rparr>))
                       else (e1, Some account))))"

text \<open>
  \<^verbatim>\<open>Buy\<close> and \<^verbatim>\<open>Sell\<close> return the vendor's order id, or the empty string. \<open>msgs\<close> are the
  caller's extra logging arguments.
\<close>

definition Buy :: "('j, 'f::{zero,ord}) env \<Rightarrow> ('j, 'f) Huobi \<Rightarrow> string \<Rightarrow> 'f \<Rightarrow> 'f \<Rightarrow> 'j arg list
    \<Rightarrow> ('j, 'f) Huobi \<times> string" where
  "Buy env e stockType price amount msgs =
     (if stockMap e stockType = None then
        (Do e ''error'' 0 0 [Str ''Buy() error, unrecognized stockType: '', Str stockType], [])
      else
        (let params = [''coin_type='' @ lookupString (stockMap e) stockType,
                       ''amount='' @ SprintFloat env amount];
             methodParam = (if price > 0 then ''method=buy'' else ''method=buy_market'');
             params = (if price > 0 then params @ [''price='' @ SprintFloat env price] else params);
             params = params @ [methodParam]
         in case getAuthJSON env e (host e) params [''market=cny''] of
              (e1, Inl err) \<Rightarrow> (Do e1 ''error'' 0 0 [Str ''Buy() error, '', Err err], [])
            | (e1, Inr json) \<Rightarrow>
                (let code = IntMust env (Get env json ''code'')
                 in if code > 0 then
                      (Do e1 ''error'' 0 0 [Err (Errorf ''Buy() error, the error number is %v'' code)], [])
                    else (Do e1 ''buy'' price amount msgs, Sprint env (Get env json ''id'')))))"

definition Sell :: "('j, 'f::{zero,ord}) env \<Rightarrow> ('j, 'f) Huobi \<Rightarrow> string \<Rightarrow> 'f \<Rightarrow> 'f \<Rightarrow> 'j arg list
    \<Rightarrow> ('j, 'f) Huobi \<times> string" where
  "Sell env e stockType price amount msgs =
     (if stockMap e stockType = None then
        (Do e ''error'' 0 0 [Str ''Sell() error, unrecognized stockType: '', Str stockType], [])
      else
        (let params = [''coin_type='' @ lookupString (stockMap e) stockType,
                       ''amount='' @ SprintFloat env amount];
             methodParam = (if price > 0 then ''method=sell'' else ''method=sell_market'');
             params = (if price > 0 then params @ [''price='' @ SprintFloat env price] else params);
             params = params @ [methodParam]
         in case getAuthJSON env e (host e) params [''market=cny''] of
              (e1, Inl err) \<Rightarrow> (Do e1 ''error'' 0 0 [Str ''Sell() error, '', Err err], [])
            | (e1, Inr json) \<Rightarrow>
                (let code = IntMust env (Get env json ''code'')
                 in if code > 0 then
                      (Do e1 ''error'' 0 0 [Err (Errorf ''Sell() error, the error number is %v'' code)], [])
                    else (Do e1 ''sell'' price amount msgs, Sprint env (Get env json ''id'')))))"

text \<open>
  \<^verbatim>\<open>GetOrder\<close> and \<^verbatim>\<open>CancelOrder\<close> read \<^verbatim>\<open>e.stockMap\<close> without the membership test the
  other operations start with.
\<close>

definition GetOrder :: "('j, 'f::zero) env \<Rightarrow> ('j, 'f) Huobi \<Rightarrow> string \<Rightarrow> string
    \<Rightarrow> ('j, 'f) Huobi \<times> 'f Order option" where
  "GetOrder env e stockType id' =
     (let params = [''method=order_info'',
                    ''coin_type='' @ lookupString (stockMap e) stockType,
                    ''id='' @ id']
      in case getAuthJSON env e (host e) params [''market=cny''] of
           (e1, Inl err) \<Rightarrow> (Do e1 ''error'' 0 0 [Str ''GetOrders() error, '', Err err], None)
         | (e1, Inr json) \<Rightarrow>
             (let code = IntMust env (Get env json ''code'')
              in if code > 0 then
                   (Do e1 ''error'' 0 0 [Err (Errorf ''GetOrders() error, the error number is %v'' code)], None)
                 else
                   (e1, Some \<lparr>ID = Sprint env (Get env json ''id''),
                              Price = MustFloat64 env (Get env json ''order_price''),
                              Amount = MustFloat64 env (Get env json ''order_amount''),
                              DealAmount = MustFloat64 env (Get env json ''processed_amount''),
                              OrderType = lookupInt (orderTypeMap e1) (MustString env (Get env json ''type'') []),
                              StockType = stockType\<rparr>)))"

definition CancelOrder :: "('j, 'f::zero) env \<Rightarrow> ('j, 'f) Huobi \<Rightarrow> 'f Order \<Rightarrow> ('j, 'f) Huobi \<times> bool" where
  "CancelOrder env e order =
     (let params = [''method=cancel_order'',
                    ''coin_type='' @ lookupString (stockMap e) (StockType order),
                    ''id='' @ ID order]
      in case getAuthJSON env e (host e) params [''market=cny''] of
           (e1, Inl err) \<Rightarrow> (Do e1 ''error'' 0 0 [Str ''CancelOrder() error, '', Err err], False)
         | (e1, Inr json) \<Rightarrow>
             (let code = IntMust env (Get env json ''code'')
              in if code > 0 then
                   (Do e1 ''error'' 0 0 [Err (Errorf ''CancelOrder() error, the error number is %v'' code)], False)
                 else if MustString env (Get env json ''result'') [] = ''success'' then
                   (Do e1 ''cancel'' 0 0 [Str (SprintfOrder env order)], True)
                 else
                   (Do e1 ''error'' 0 0 [Str ''CancelOrder() error, '', Json (Get env json ''msg'')], False)))"

text \<open>
  The loop of \<^verbatim>\<open>GetOrders\<close> and \<^verbatim>\<open>GetTrades\<close> appends one order per index
  \<open>0, \<dots>, count - 1\<close>: a \<open>map\<close> over these indices.
\<close>

definition orderAt :: "('j, 'f) env \<Rightarrow> ('j, 'f) Huobi \<Rightarrow> 'j \<Rightarrow> string \<Rightarrow> nat \<Rightarrow> 'f Order" where
  "orderAt env e json stockType i =
     (let orderJSON = GetIndex env json i
      in \<lparr>ID = Sprint env (Get env orderJSON ''id''),
          Price = MustFloat64 env (Get env orderJSON ''order_price''),
          Amount = MustFloat64 env (Get env orderJSON ''order_amount''),
          DealAmount = MustFloat64 env (Get env orderJSON ''processed_amount''),
          OrderType = lookupInt (orderTypeMap e) (MustString env (Get env orderJSON ''type'') []),
          StockType = stockType\<rparr>)"

definition GetOrders :: "('j, 'f::zero) env \<Rightarrow> ('j, 'f) Huobi \<Rightarrow> string
    \<Rightarrow> ('j, 'f) Huobi \<times> 'f Order list" where
  "GetOrders env e stockType =
     (if stockMap e stockType = None then
        (Do e ''error'' 0 0 [Str ''GetOrders() error, unrecognized stockType: '', Str stockType], [])
      else
        (let params = [''method=get_orders'',
                       ''coin_type='' @ lookupString (stockMap e) stockType]
         in case getAuthJSON env e (host e @ ''order_info.do'') params [] of
              (e1, Inl err) \<Rightarrow> (Do e1 ''error'' 0 0 [Str ''GetOrders() error, '', Err err], [])
            | (e1, Inr json) \<Rightarrow>
                (let code = IntMust env (Get env json ''code'')
                 in if code > 0 then
                      (Do e1 ''error'' 0 0 [Err (Errorf ''GetOrders() error, the error number is %v'' code)], [])
                    else
                      (let count = length (MustArray env json)
                       in (e1, map (orderAt env e1 json stockType) [0..<count])))))"

definition GetTrades :: "('j, 'f::zero) env \<Rightarrow> ('j, 'f) Huobi \<Rightarrow> string
    \<Rightarrow> ('j, 'f) Huobi \<times> 'f Order list" where
  "GetTrades env e stockType =
     (if stockMap e stockType = None then
        (Do e ''error'' 0 0 [Str ''GetTrades() error, unrecognized stockType: '', Str stockType], [])
      else
        (let params = [''method=get_new_deal_orders'',
                       ''coin_type='' @ lookupString (stockMap e) stockType]
         in case getAuthJSON env e (host e @ ''order_history.do'') params [] of
              (e1, Inl err) \<Rightarrow> (Do e1 ''error'' 0 0 [Str ''GetTrades() error, '', Err err], [])
            | (e1, Inr json) \<Rightarrow>
                (let code = IntMust env (Get env json ''code'')
                 in if code > 0 then
                      (Do e1 ''error'' 0 0 [Err (Errorf ''GetTrades() error, the error number is %v'' code)], [])
                    else
                      (let count = length (MustArray env json)
                       in (e1, map (orderAt env e1 json stockType) [0..<count])))))"

subsection \<open>GetTicker (lines 296--341)\<close>

text \<open>One side of the book: a \<^verbatim>\<open>MarketOrder\<close> per element of the array \<open>depthsJSON\<close>.\<close>

definition depths :: "('j, 'f) env \<Rightarrow> 'j \<Rightarrow> 'f MarketOrder list" where
  "depths env depthsJSON =
     map (\<lambda>i. let depthJSON = GetIndex env depthsJSON i
               in \<lparr>Price' = MustFloat64 env (GetIndex env depthJSON 0),
                   Amount' = MustFloat64 env (GetIndex env depthJSON 1)\<rparr>)
         [0..<length (MustArray env depthsJSON)]"

definition GetTicker :: "('j, 'f::{zero,plus,inverse,numeral}) env \<Rightarrow> ('j, 'f) Huobi \<Rightarrow> string \<Rightarrow> int list
    \<Rightarrow> ('j, 'f) Huobi \<times> 'f Ticker option" where
  "GetTicker env e stockType sizes =
     (if stockMap e stockType = None then
        (Do e ''error'' 0 0 [Str ''GetTicker() error, unrecognized stockType: '', Str stockType], None)
      else
        (let size' = (if length sizes > 0 \<and> sizes ! 0 > 20 then sizes ! 0 else 20);
             url = ''http://api.huobi.com/staticmarket/depth_'' @ ToLower env stockType @ ''_''
                     @ SprintInt size' @ ''.js'';
             e1 = e\<lparr>wire := wire e @ [GET url]\<rparr>
         in case get env url of
              Inl err \<Rightarrow> (Do e1 ''error'' 0 0 [Str ''GetTicker() error, '', Err err], None)
            | Inr resp \<Rightarrow>
                (case NewJson env resp of
                   Inl err \<Rightarrow> (Do e1 ''error'' 0 0 [Str ''GetTicker() error, '', Err err], None)
                 | Inr json \<Rightarrow>
                     (let bids = depths env (Get env json ''bids'');
                          asks = depths env (Get env json ''asks'')
                      in if length bids < 1 \<or> length asks < 1 then
                           (Do e1 ''error'' 0 0 [Str ''GetTicker() error, can not get enough Bids or Asks''], None)
                         else
                           (let buy = Price' (bids ! 0);
                                sell = Price' (asks ! 0)
                            in (e1, Some \<lparr>Bids = bids, Asks = asks, Buy' = buy, Sell' = sell,
                                          Mid = (buy + sell) / 2\<rparr>))))))"

subsection \<open>GetRecords: merging fetched bars into the window (lines 367--400)\<close>

text \<open>
  The loop \<^verbatim>\<open>for i := len(json.MustArray()); i > 0; i--\<close> reads element \<open>i - 1\<close>, so
  it walks the fetched array from its last element to its first. \<open>walk\<close> is that loop
  over the elements in the order the loop meets them; an element is \<open>Inl p\<close> when
  reading its timestamp panics and \<open>Inr r\<close> when it yields the bar \<open>r\<close>. The result is
  the window as the loop left it (the replacement of the last bar is done in place)
  and either the panic or \<^verbatim>\<open>recordsNew\<close>.
\<close>

fun walk :: "int \<Rightarrow> 'f Record list \<Rightarrow> 'f Record list \<Rightarrow> (panic + 'f Record) list
    \<Rightarrow> 'f Record list \<times> (panic + 'f Record list)" where
  "walk timeLast window recordsNew [] = (window, Inr recordsNew)"
| "walk timeLast window recordsNew (Inl p # rest) = (window, Inl p)"
| "walk timeLast window recordsNew (Inr r # rest) =
     (if Time r > timeLast then walk timeLast window (recordsNew @ [r]) rest
      else if Time r = timeLast then
        (if window = [] then (window, Inl IndexOutOfRange)
         else walk timeLast (window[length window - 1 := r]) recordsNew rest)
      else (window, Inr recordsNew))"

text \<open>
  Lines 367--400 for one timeframe: \<open>window\<close> is \<^verbatim>\<open>e.records[period]\<close> before the call,
  \<open>incoming\<close> the fetched array in the order the vendor sent it, \<open>size'\<close> the
  local \<^verbatim>\<open>size\<close>. The result is \<^verbatim>\<open>e.records[period]\<close> after the call and what the call
  returns. A negative \<open>size'\<close> makes the slice expression \<^verbatim>\<open>[:size]\<close> panic, after the
  merged window has been stored.
\<close>

definition reconcile :: "'f Record list \<Rightarrow> (panic + 'f Record) list \<Rightarrow> int
    \<Rightarrow> 'f Record list \<times> (panic + 'f Record list)" where
  "reconcile window incoming size' =
     (let timeLast = (if length window > 0 then Time (window ! (length window - 1)) else 0)
      in case walk timeLast window [] (rev incoming) of
           (window', Inl p) \<Rightarrow> (window', Inl p)
         | (window', Inr recordsNew) \<Rightarrow>
             (let merged = window' @ recordsNew
              in if int (length merged) > size' then
                   (if size' < 0 then (merged, Inl SliceBoundsOutOfRange)
                    else (take (nat size') merged, Inr (take (nat size') merged)))
                 else (merged, Inr merged)))"

text \<open>
  Reading one element of the fetched array (lines 373--392). The timestamp is the
  first twelve bytes of the element's first field; slicing a shorter string panics.
  Both branches of the loop build the same \<^verbatim>\<open>Record\<close> from the element.
\<close>

definition fetched :: "('j, 'f) env \<Rightarrow> 'j \<Rightarrow> panic + 'f Record" where
  "fetched env recordJSON =
     (let s = MustString env (GetIndex env recordJSON 0) [''19700101000000000'']
      in if length s < 12 then Inl SliceBoundsOutOfRange
         else Inr \<lparr>Time = Int64Must env (take 12 s),
                   Open = MustFloat64 env (GetIndex env recordJSON 1),
                   High = MustFloat64 env (GetIndex env recordJSON 2),
                   Low = MustFloat64 env (GetIndex env recordJSON 3),
                   Close = MustFloat64 env (GetIndex env recordJSON 4),
                   Volume = MustFloat64 env (GetIndex env recordJSON 5)\<rparr>)"

text \<open>
  \<^verbatim>\<open>GetRecords\<close>. It returns the window, or panics; the first component is the adapter
  as the call leaves it. The debugging \<^verbatim>\<open>fmt.Println\<close> of line 401 is left out.
\<close>

definition GetRecords :: "('j, 'f::zero) env \<Rightarrow> ('j, 'f) Huobi \<Rightarrow> string \<Rightarrow> string \<Rightarrow> int list
    \<Rightarrow> ('j, 'f) Huobi \<times> (panic + 'f Record list)" where
  "GetRecords env e stockType period sizes =
     (if stockMap e stockType = None then
        (Do e ''error'' 0 0 [Str ''GetRecords() error, unrecognized stockType: '', Str stockType], Inr [])
      else if periodMap e period = None then
        (Do e ''error'' 0 0 [Str ''GetRecords() error, unrecognized period: '', Str period], Inr [])
      else
        (let size' = (if length sizes > 0 then sizes ! 0 else 200);
             url = ''http://api.huobi.com/staticmarket/'' @ ToLower env stockType @ ''_kline_''
                     @ lookupString (periodMap e) period @ ''_json.js'';
             e1 = e\<lparr>wire := wire e @ [GET url]\<rparr>
         in case get env url of
              Inl err \<Rightarrow> (Do e1 ''error'' 0 0 [Str ''GetRecords() error, '', Err err], Inr [])
            | Inr resp \<Rightarrow>
                (case NewJson env resp of
                   Inl err \<Rightarrow> (Do e1 ''error'' 0 0 [Str ''GetRecords() error, '', Err err], Inr [])
                 | Inr json \<Rightarrow>
                     (let incoming = map (\<lambda>i. fetched env (GetIndex env json i))
                                        [0..<length (MustArray env json)]
                      in case reconcile (records e1 period) incoming size' of
                           (window, result) \<Rightarrow>
                             (e1\<lparr>records := (records e1)(period := window)\<rparr>, result)))))"

subsection \<open>Fixtures for the examples\<close>

text \<open>A bar at time \<open>t\<close> whose five values are all \<open>v\<close>.\<close>

definition bar :: "int \<Rightarrow> 'f \<Rightarrow> 'f Record" where
  "bar t v = \<lparr>Time = t, Open = v, High = v, Low = v, Close = v, Volume = v\<rparr>"

text \<open>
  A stand-in for the collaborators, used only where an example needs concrete ones:
  a small JSON tree with integer numbers, a transport that answers every request with
  \<open>reply\<close>, a decoder that answers \<open>decoded\<close>, and coercions that read the tree the
  plain way. \<^verbatim>\<open>float64\<close> is \<open>real\<close> there.
\<close>

datatype json = JNull | JNumber int | JString string | JArray "json list" | JObject "(string \<times> json) list"

definition lower :: "char \<Rightarrow> char" where
  "lower c = (if CHR ''A'' \<le> c \<and> c \<le> CHR ''Z'' then char_of (of_char c + (32::nat)) else c)"

definition stub :: "(error + string) \<Rightarrow> (error + json) \<Rightarrow> (json, real) env" where
  "stub reply decoded =
     \<lparr>post = (\<lambda>url params. reply),
      get = (\<lambda>url. reply),
      signMd5 = concat,
      now = 1450000000,
      NewJson = (\<lambda>resp. decoded),
      Get = (\<lambda>j key. case j of JObject kvs \<Rightarrow> (case map_of kvs key of Some v \<Rightarrow> v | None \<Rightarrow> JNull)
                        | _ \<Rightarrow> JNull),
      GetIndex = (\<lambda>j i. case j of JArray xs \<Rightarrow> (if i < length xs then xs ! i else JNull) | _ \<Rightarrow> JNull),
      MustArray = (\<lambda>j. case j of JArray xs \<Rightarrow> xs | _ \<Rightarrow> []),
      MustString = (\<lambda>j dflt. case j of JString s \<Rightarrow> s | _ \<Rightarrow> (case dflt of [] \<Rightarrow> [] | d # _ \<Rightarrow> d)),
      MustFloat64 = (\<lambda>j. case j of JNumber n \<Rightarrow> of_int n | _ \<Rightarrow> 0),
      IntMust = (\<lambda>j. case j of JNumber n \<Rightarrow> n | _ \<Rightarrow> 0),
      Int64Must = (\<lambda>s. foldl (\<lambda>n c. 10 * n + (int (of_char c) - 48)) 0 s),
      Float64Must = (\<lambda>j. case j of JNumber n \<Rightarrow> of_int n | _ \<Rightarrow> 0),
      Sprint = (\<lambda>j. case j of JNumber n \<Rightarrow> SprintInt n | JString s \<Rightarrow> s | _ \<Rightarrow> ''<nil>''),
      SprintFloat = (\<lambda>x. SprintInt \<lfloor>x\<rfloor>),
      SprintfOrder = ID,
      ToLower = map lower\<rparr>"

text \<open>An adapter as \<^verbatim>\<open>NewHuobi\<close> builds it, with credentials \<open>ak\<close> and \<open>sk\<close>.\<close>

definition fresh :: "string \<Rightarrow> string \<Rightarrow> (json, real) Huobi" where
  "fresh ak sk = NewHuobi \<lparr>Type = ''huobi'', AccessKey = ak, SecretKey = sk, MainStock = ''BTC''\<rparr>"

section \<open>Properties of the merge in GetRecords\<close>

subsection \<open>The walk over the fetched array\<close>

text \<open>Bars that are all newer than \<open>timeLast\<close> are all appended, in the order walked.\<close>

lemma walk_newer:
  "\<forall>b\<in>set xs. timeLast < Time b \<Longrightarrow>
     walk timeLast window recordsNew (map Inr xs) = (window, Inr (recordsNew @ xs))"
  by (induction xs arbitrary: recordsNew) simp_all

text \<open>Writing at the last index of a non-empty window replaces its last bar.\<close>

lemma update_last: "w \<noteq> [] \<Longrightarrow> w[length w - Suc 0 := r] = butlast w @ [r]"
  by (induction w rule: rev_induct) simp_all

lemma last_nth: "w \<noteq> [] \<Longrightarrow> w ! (length w - Suc 0) = last w"
  by (simp add: last_conv_nth)

text \<open>
  When the walk meets the bars in strictly increasing order of time, the first bar
  decides: newer, and everything is appended; equal, and it replaces the last bar while
  the rest is appended; older, and the loop stops at once.
\<close>

lemma walk_ascending:
  assumes "sorted_wrt (<) (map Time (x # rest))"
  shows "walk timeLast window [] (map Inr (x # rest)) =
           (if Time x > timeLast then (window, Inr (x # rest))
            else if Time x = timeLast then
              (if window = [] then (window, Inl IndexOutOfRange)
               else (butlast window @ [x], Inr rest))
            else (window, Inr []))"
proof -
  have later: "\<forall>b\<in>set rest. Time x < Time b"
    using assms by simp
  show ?thesis
  proof (cases "Time x > timeLast")
    case True
    then have "\<forall>b\<in>set (x # rest). timeLast < Time b"
      using later by auto
    from walk_newer [OF this, of window "[]"] True show ?thesis
      by simp
  next
    case False
    show ?thesis
    proof (cases "Time x = timeLast")
      case True
      then have "\<forall>b\<in>set rest. timeLast < Time b"
        using later by simp
      from walk_newer [OF this, of _ "[]"] True show ?thesis
        by (simp add: update_last)
    next
      case False
      with \<open>\<not> Time x > timeLast\<close> show ?thesis by simp
    qed
  qed
qed

lemma sorted_last_max:
  "sorted_wrt (<) (map Time w) \<Longrightarrow> b \<in> set w \<Longrightarrow> Time b \<le> Time (last w)"
proof (induction w rule: rev_induct)
  case Nil
  then show ?case by simp
next
  case (snoc y ys)
  then show ?case
    by (auto simp: sorted_wrt_append less_imp_le)
qed

lemma sorted_append_newer:
  assumes "sorted_wrt (<) (map Time w)" and "sorted_wrt (<) (map Time xs)"
    and "w \<noteq> [] \<Longrightarrow> \<forall>b\<in>set xs. Time (last w) < Time b"
  shows "sorted_wrt (<) (map Time (w @ xs))"
proof (cases "w = []")
  case True
  with assms(2) show ?thesis by simp
next
  case False
  have "\<forall>a\<in>set w. \<forall>b\<in>set xs. Time a < Time b"
    using sorted_last_max [OF assms(1)] assms(3) [OF False] by fastforce
  with assms(1,2) show ?thesis
    by (simp add: sorted_wrt_append)
qed

lemma map_Time_replace_last:
  "w \<noteq> [] \<Longrightarrow> Time x = Time (last w) \<Longrightarrow> map Time (butlast w @ [x]) = map Time w"
  by (induction w rule: rev_induct) simp_all

lemma sorted_take_map:
  "sorted_wrt (<) (map f ys) \<Longrightarrow> sorted_wrt (<) (map f (take n ys))"
  unfolding take_map [symmetric] by (rule sorted_wrt_take)

text \<open>The merged window, before the cut to the size.\<close>

lemma merged_sorted:
  assumes w: "sorted_wrt (<) (map Time window)" and xs: "sorted_wrt (<) (map Time xs)"
    and res: "walk (if length window > 0 then Time (window ! (length window - 1)) else 0) window []
               (map Inr xs) = (window', r)"
  shows "sorted_wrt (<) (map Time window') \<and>
         (case r of Inl p \<Rightarrow> window' = [] | Inr recordsNew \<Rightarrow> sorted_wrt (<) (map Time (window' @ recordsNew)))"
proof (cases xs)
  case Nil
  with res w show ?thesis by auto
next
  case (Cons x rest)
  let ?t = "if length window > 0 then Time (window ! (length window - 1)) else 0"
  have later: "\<forall>b\<in>set rest. Time x < Time b" and rest: "sorted_wrt (<) (map Time rest)"
    using xs Cons by simp_all
  have tl: "window \<noteq> [] \<Longrightarrow> ?t = Time (last window)"
    by (simp add: last_nth)
  note asc = walk_ascending [of x rest ?t window] xs [unfolded Cons]
  consider (newer) "Time x > ?t" | (equal) "Time x = ?t" | (older) "Time x < ?t"
    by linarith
  then show ?thesis
  proof cases
    case newer
    then have win: "window' = window" and r: "r = Inr (x # rest)"
      using res asc Cons by simp_all
    have "window \<noteq> [] \<Longrightarrow> \<forall>b\<in>set (x # rest). Time (last window) < Time b"
      using newer later tl by auto
    from sorted_append_newer [OF w xs [unfolded Cons] this] show ?thesis
      using win r w by simp
  next
    case equal
    show ?thesis
    proof (cases "window = []")
      case True
      then show ?thesis using res asc Cons equal by auto
    next
      case False
      then have win: "window' = butlast window @ [x]" and r: "r = Inr rest"
        using res asc Cons equal by simp_all
      have tx: "Time x = Time (last window)"
        using equal tl False by simp
      have same: "map Time window' = map Time window"
        using map_Time_replace_last [OF False tx] win by simp
      have lw: "last window' = x" "window' \<noteq> []"
        using win by simp_all
      have "window' \<noteq> [] \<Longrightarrow> \<forall>b\<in>set rest. Time (last window') < Time b"
        using later lw by simp
      from sorted_append_newer [OF _ rest this] show ?thesis
        using same w r by simp
    qed
  next
    case older
    then have "window' = window" "r = Inr []"
      using res asc Cons by simp_all
    with w show ?thesis by simp
  qed
qed

subsection \<open>The claims about the window\<close>

text \<open>
  C1. The claim: when the merged window is longer than the cap it is cut from the front,
  keeping the most recent bars, so that cap 2, window \<open>[t=1, t=2]\<close> and an incoming bar
  at \<open>t=3\<close> give \<open>[t=2, t=3]\<close>. The code slices \<^verbatim>\<open>e.records[period][:size]\<close>, which keeps the
  first \<open>size\<close> bars: on that input the window stays \<open>[t=1, t=2]\<close> and the new bar is
  dropped.
\<close>

theorem C1_cap_keeps_oldest:
  "reconcile [bar 1 a, bar 2 b] [Inr (bar 3 c)] 2 = ([bar 1 a, bar 2 b], Inr [bar 1 a, bar 2 b])"
  by (simp add: reconcile_def bar_def Let_def)

text \<open>
  C2. The claim: window \<open>[t=1, t=2]\<close> and the fetched batch \<open>[t=3, t=2 revised, t=1]\<close>,
  newest first, give \<open>[t=1, t=2 revised, t=3]\<close>. The loop starts at the last element of
  the array, the bar at \<open>t=1\<close>; it is older than the window's last bar, so the \<^verbatim>\<open>break\<close>
  ends the loop before the bars at \<open>t=2\<close> and \<open>t=3\<close> are read: nothing is merged and the
  window stays \<open>[t=1, t=2]\<close>.
\<close>

theorem C2_newest_first_merges_nothing:
  "reconcile [bar 1 a, bar 2 b] (map Inr [bar 3 c, bar 2 b', bar 1 a']) 200
     = ([bar 1 a, bar 2 b], Inr [bar 1 a, bar 2 b])"
  by (simp add: reconcile_def bar_def Let_def)

text \<open>
  C3. The claim: on an empty window every fetched bar is newer than the sentinel and
  is appended, so that \<open>[t=3], [t=2], [t=1]\<close> give \<open>[t=1, t=2, t=3]\<close>. The sentinel is 0: a
  bar whose timestamp is 0 equals it, and the replacement at index \<open>-1\<close> of the empty
  window panics. And the cut to the size follows every merge: the claim's own batch
  with size 2 gives \<open>[t=1, t=2]\<close>.
\<close>

theorem C3_counterexample:
  "snd (reconcile [] (map Inr [bar 0 (10::real)]) 200) = Inl IndexOutOfRange
   \<and> fst (reconcile [] (map Inr [bar 3 (30::real), bar 2 20, bar 1 10]) 2) = [bar 1 10, bar 2 20]
   \<and> fst (reconcile [] (map Inr [bar 3 (30::real), bar 2 20, bar 1 10]) 2) \<noteq> [bar 1 10, bar 2 20, bar 3 30]"
  by (simp add: reconcile_def bar_def Let_def)

text \<open>
  C3, amended. Given an empty window, if every fetched bar has a timestamp greater
  than 0 and the number of fetched bars does not exceed the size, then every fetched
  bar is appended, in the order walked: the window, which is also the value
  returned, is the fetched array reversed. For the bars \<open>[t=3], [t=2], [t=1]\<close>, delivered
  newest first, and the default size 200, the window is \<open>[t=1, t=2, t=3]\<close>, of length 3.
\<close>

theorem C3_first_call_appends:
  "((\<forall>b\<in>set bars. 0 < Time b) \<and> int (length bars) \<le> size'
      \<longrightarrow> reconcile [] (map Inr bars) size' = (rev bars, Inr (rev bars)))
   \<and> reconcile [] (map Inr [bar 3 c, bar 2 b, bar 1 a]) 200
       = ([bar 1 a, bar 2 b, bar 3 c], Inr [bar 1 a, bar 2 b, bar 3 c])
   \<and> length (fst (reconcile [] (map Inr [bar 3 c, bar 2 b, bar 1 a]) 200)) = 3"
proof (intro conjI impI)
  assume h: "(\<forall>b\<in>set bars. 0 < Time b) \<and> int (length bars) \<le> size'"
  then have "walk 0 [] [] (map Inr (rev bars)) = ([], Inr ([] @ rev bars))"
    by (intro walk_newer) simp
  with h show "reconcile [] (map Inr bars) size' = (rev bars, Inr (rev bars))"
    by (simp add: reconcile_def rev_map Let_def)
next
  show "reconcile [] (map Inr [bar 3 c, bar 2 b, bar 1 a]) 200
       = ([bar 1 a, bar 2 b, bar 3 c], Inr [bar 1 a, bar 2 b, bar 3 c])"
    by (simp add: reconcile_def bar_def Let_def)
  then show "length (fst (reconcile [] (map Inr [bar 3 c, bar 2 b, bar 1 a]) 200)) = 3"
    by simp
qed

theorem C3_first_call_appends_witness:
  "reconcile [] (map Inr [bar 201601010003 (30::real), bar 201601010002 20, bar 201601010001 10]) 3
     = ([bar 201601010001 10, bar 201601010002 20, bar 201601010003 30],
        Inr [bar 201601010001 10, bar 201601010002 20, bar 201601010003 30])"
  using C3_first_call_appends
    [of "[bar 201601010003 (30::real), bar 201601010002 20, bar 201601010001 10]" 3 30 20 10,
     THEN conjunct1]
  by (simp add: bar_def)

text \<open>
  C4. The claim: a fetched bar with the timestamp of the window's last bar replaces
  it, so that window \<open>[t=1, t=2]\<close> merged with \<open>[t=2 revised, t=1]\<close> gives
  \<open>[t=1, t=2 revised]\<close>. As for C2, the loop starts at the bar at \<open>t=1\<close> and the \<^verbatim>\<open>break\<close> ends
  it there: the revised bar is never read and the bar at \<open>t=2\<close> keeps its old values.
\<close>

theorem C4_revised_bar_not_reached:
  "reconcile [bar 1 a, bar 2 b] (map Inr [bar 2 b', bar 1 a']) 200
     = ([bar 1 a, bar 2 b], Inr [bar 1 a, bar 2 b])"
  by (simp add: reconcile_def bar_def Let_def)

text \<open>
  The equal branch itself does what it says when the loop reaches it: if the last
  element of the fetched array has the timestamp of the window's last bar, the element
  before it (if any) is older, and the size does not cut the window, the last bar is
  replaced in place.
\<close>

lemma equal_bar_met_first:
  assumes "window \<noteq> []" and "Time b = Time (last window)"
    and "older = [] \<or> Time (last older) < Time (last window)"
    and "int (length window) \<le> size'"
  shows "reconcile window (map Inr (older @ [b])) size'
           = (butlast window @ [b], Inr (butlast window @ [b]))"
proof -
  let ?t = "Time (last window)"
  have stop: "walk ?t (butlast window @ [b]) [] (map Inr (rev older))
                = (butlast window @ [b], Inr [])"
  proof (cases older rule: rev_cases)
    case Nil
    then show ?thesis by simp
  next
    case (snoc ys y)
    with assms(3) show ?thesis by simp
  qed
  have "walk ?t window [] (map Inr (rev (older @ [b]))) = (butlast window @ [b], Inr [])"
    using assms(1,2) stop by (simp add: update_last)
  then show ?thesis
    using assms(1,4) by (simp add: reconcile_def rev_map last_nth Let_def)
qed

text \<open>
  C5. The claim: an empty batch leaves the window unchanged for every size. The cut to
  \<open>size\<close> runs on every call: a window of three bars and size 2 loses a bar.
\<close>

theorem C5_counterexample:
  "fst (reconcile [bar 1 (10::real), bar 2 20, bar 3 30] [] 2) \<noteq> [bar 1 10, bar 2 20, bar 3 30]"
  by (simp add: reconcile_def bar_def Let_def)

text \<open>
  C5, amended. An empty batch leaves the window unchanged for every window and every
  size that is at least the window's length.
\<close>

theorem C5_empty_incoming:
  "int (length window) \<le> size' \<Longrightarrow> reconcile window [] size' = (window, Inr window)"
  by (simp add: reconcile_def Let_def)

theorem C5_empty_incoming_witness:
  "reconcile [bar 1 (10::real), bar 2 20, bar 3 30] [] 3
     = ([bar 1 10, bar 2 20, bar 3 30], Inr [bar 1 10, bar 2 20, bar 3 30])"
  using C5_empty_incoming [of "[bar 1 (10::real), bar 2 20, bar 3 30]" 3] by simp

text \<open>
  C9. The claim: every call keeps the window strictly increasing in time. The loop
  compares each fetched bar with \<open>timeLast\<close> only, never with the bars it has just
  appended: a batch with the same timestamp twice, or one delivered oldest first,
  leaves a window that is not strictly increasing.
\<close>

theorem C9_counterexample:
  "\<not> sorted_wrt (<) (map Time (fst (reconcile [] (map Inr [bar 5 (10::real), bar 5 11]) 200)))
   \<and> \<not> sorted_wrt (<) (map Time (fst (reconcile [] (map Inr [bar 1 (10::real), bar 2 20]) 200)))"
  by (simp add: reconcile_def bar_def Let_def)

text \<open>
  C9, amended. If the window is strictly increasing in time, the fetched array is
  strictly decreasing in time (newest first) and the size is not negative, then after
  the call the window is no longer than the size, strictly increasing in time with no
  timestamp twice, and no bar in it is later than its last bar.
\<close>

theorem C9_window_invariant:
  assumes "sorted_wrt (<) (map Time window)" and "sorted_wrt (>) (map Time bars)"
    and "0 \<le> size'"
  shows "int (length (fst (reconcile window (map Inr bars) size'))) \<le> size'
       \<and> sorted_wrt (<) (map Time (fst (reconcile window (map Inr bars) size')))
       \<and> distinct (map Time (fst (reconcile window (map Inr bars) size')))
       \<and> (\<forall>b\<in>set (fst (reconcile window (map Inr bars) size')).
             Time b \<le> Time (last (fst (reconcile window (map Inr bars) size'))))"
proof -
  let ?t = "if length window > 0 then Time (window ! (length window - 1)) else 0"
  let ?w = "fst (reconcile window (map Inr bars) size')"
  obtain window' r where res: "walk ?t window [] (map Inr (rev bars)) = (window', r)"
    by (cases "walk ?t window [] (map Inr (rev bars))")
  have asc: "sorted_wrt (<) (map Time (rev bars))"
    using assms(2) by (simp add: rev_map sorted_wrt_rev flip: rev_map)
  note m = merged_sorted [OF assms(1) asc res]
  have "int (length ?w) \<le> size' \<and> sorted_wrt (<) (map Time ?w)"
  proof (cases r)
    case (Inl p)
    with m res assms(3) show ?thesis
      by (simp add: reconcile_def rev_map)
  next
    case (Inr recordsNew)
    with m have "sorted_wrt (<) (map Time (window' @ recordsNew))" by simp
    then have "sorted_wrt (<) (map Time (take (nat size') (window' @ recordsNew)))"
      by (rule sorted_take_map)
    with Inr m res assms(3) show ?thesis
      by (auto simp: reconcile_def rev_map Let_def)
  qed
  then have len: "int (length ?w) \<le> size'" and srt: "sorted_wrt (<) (map Time ?w)"
    by simp_all
  have "distinct (map Time ?w)"
    using srt by (simp add: strict_sorted_iff)
  moreover have "\<forall>b\<in>set ?w. Time b \<le> Time (last ?w)"
    using sorted_last_max [OF srt] by blast
  ultimately show ?thesis using len srt by blast
qed

theorem C9_window_invariant_witness:
  "int (length (fst (reconcile [bar 1 (10::real), bar 2 20] (map Inr [bar 4 40, bar 3 30, bar 2 21]) 3))) \<le> 3
   \<and> map Time (fst (reconcile [bar 1 (10::real), bar 2 20] (map Inr [bar 4 40, bar 3 30, bar 2 21]) 3)) = [1, 2, 3]
   \<and> sorted_wrt (<) (map Time (fst (reconcile [bar 1 (10::real), bar 2 20] (map Inr [bar 4 40, bar 3 30, bar 2 21]) 3)))"
  using C9_window_invariant [of "[bar 1 (10::real), bar 2 20]" "[bar 4 40, bar 3 30, bar 2 21]" 3]
  by (simp add: bar_def reconcile_def Let_def)

section \<open>Properties of the operations\<close>

subsection \<open>What GetRecords does with a fetched array\<close>

text \<open>What \<^verbatim>\<open>GetRecords\<close> does once the symbol and the timeframe are recognised and the
  array has been fetched and decoded: the merge of \<open>reconcile\<close>, stored under the
  timeframe.\<close>

lemma GetRecords_reconcile:
  assumes "stockMap e stockType \<noteq> None" and "periodMap e period \<noteq> None"
    and "get env (''http://api.huobi.com/staticmarket/'' @ ToLower env stockType @ ''_kline_''
                    @ lookupString (periodMap e) period @ ''_json.js'') = Inr resp"
    and "NewJson env resp = Inr json"
  shows "records (fst (GetRecords env e stockType period sizes)) period
           = fst (reconcile (records e period)
                   (map (\<lambda>i. fetched env (GetIndex env json i)) [0..<length (MustArray env json)])
                   (if length sizes > 0 then sizes ! 0 else 200))"
    and "snd (GetRecords env e stockType period sizes)
           = snd (reconcile (records e period)
                   (map (\<lambda>i. fetched env (GetIndex env json i)) [0..<length (MustArray env json)])
                   (if length sizes > 0 then sizes ! 0 else 200))"
  using assms by (auto simp: GetRecords_def Let_def split: prod.splits)

text \<open>
  Two runs through the whole of \<^verbatim>\<open>GetRecords\<close> with the stand-in collaborators. The
  first call on a new adapter turns a newest-first array into an oldest-first window.
\<close>

lemma GetRecords_first_call_example:
  "snd (GetRecords
          (stub (Inr ''[]'')
             (Inr (JArray [JArray [JString ''20160101000300000'', JNumber 30, JNumber 30, JNumber 30, JNumber 30, JNumber 30],
                           JArray [JString ''20160101000200000'', JNumber 20, JNumber 20, JNumber 20, JNumber 20, JNumber 20],
                           JArray [JString ''20160101000100000'', JNumber 10, JNumber 10, JNumber 10, JNumber 10, JNumber 10]])))
          (fresh ''ak'' ''sk'') ''BTC'' ''M'' [])
     = Inr [bar 201601010001 10, bar 201601010002 20, bar 201601010003 30]"
  by (simp add: GetRecords_def fresh_def NewHuobi_def stub_def fetched_def reconcile_def bar_def Let_def
      upt_rec [of 0] upt_rec [of 1] upt_rec [of 2])

text \<open>
  With size 2, a call that fetches the bars of minutes 1 and 2 and a second call that
  fetches the bar of minute 3 leave the window at minutes 1 and 2.
\<close>

lemma GetRecords_cap_example:
  "snd (GetRecords
          (stub (Inr ''[]'')
             (Inr (JArray [JArray [JString ''20160101000300000'', JNumber 30, JNumber 30, JNumber 30, JNumber 30, JNumber 30]])))
          (fst (GetRecords
                 (stub (Inr ''[]'')
                    (Inr (JArray [JArray [JString ''20160101000200000'', JNumber 20, JNumber 20, JNumber 20, JNumber 20, JNumber 20],
                                  JArray [JString ''20160101000100000'', JNumber 10, JNumber 10, JNumber 10, JNumber 10, JNumber 10]])))
                 (fresh ''ak'' ''sk'') ''BTC'' ''M'' [2]))
          ''BTC'' ''M'' [2])
     = Inr [bar 201601010001 10, bar 201601010002 20]"
  by (simp add: GetRecords_def fresh_def NewHuobi_def stub_def fetched_def reconcile_def bar_def Let_def
      upt_rec [of 0] upt_rec [of 1])

subsection \<open>Requests\<close>

text \<open>\<^verbatim>\<open>getAuthJSON\<close> hands exactly one request to the transport, whatever the answer.\<close>

lemma getAuthJSON_wire:
  "wire (fst (getAuthJSON env e url params optionals)) =
     wire e @ [POST url
       (sort (params @ [''access_key='' @ AccessKey (option e), ''secret_key='' @ SecretKey (option e),
                        ''created='' @ SprintInt (now env)])
        @ [''sign='' @ signMd5 env
             (sort (params @ [''access_key='' @ AccessKey (option e), ''secret_key='' @ SecretKey (option e),
                              ''created='' @ SprintInt (now env)]))]
        @ optionals)]"
  by (simp add: getAuthJSON_def Let_def split: sum.splits)

lemma Do_wire: "wire (Do e kind price amount msgs) = wire e"
  by (simp add: Do_def)

text \<open>
  The operations that test the symbol first: on an unrecognised symbol they hand
  nothing to the transport, log one error and return the zero value.
\<close>

lemma unrecognized_symbol:
  assumes "stockMap e stockType = None"
  shows "Buy env e stockType price amount msgs
           = (Do e ''error'' 0 0 [Str ''Buy() error, unrecognized stockType: '', Str stockType], [])"
    and "Sell env e stockType price amount msgs
           = (Do e ''error'' 0 0 [Str ''Sell() error, unrecognized stockType: '', Str stockType], [])"
    and "GetOrders env e stockType
           = (Do e ''error'' 0 0 [Str ''GetOrders() error, unrecognized stockType: '', Str stockType], [])"
    and "GetTrades env e stockType
           = (Do e ''error'' 0 0 [Str ''GetTrades() error, unrecognized stockType: '', Str stockType], [])"
    and "GetTicker env' e stockType sizes
           = (Do e ''error'' 0 0 [Str ''GetTicker() error, unrecognized stockType: '', Str stockType], None)"
    and "GetRecords env e stockType period sizes
           = (Do e ''error'' 0 0 [Str ''GetRecords() error, unrecognized stockType: '', Str stockType], Inr [])"
  using assms
  by (simp_all add: Buy_def Sell_def GetOrders_def GetTrades_def GetTicker_def GetRecords_def)

lemma unrecognized_period:
  assumes "stockMap e stockType \<noteq> None" and "periodMap e period = None"
  shows "GetRecords env e stockType period sizes
           = (Do e ''error'' 0 0 [Str ''GetRecords() error, unrecognized period: '', Str period], Inr [])"
  using assms by (auto simp: GetRecords_def)

text \<open>\<^verbatim>\<open>GetOrder\<close> and \<^verbatim>\<open>CancelOrder\<close> post whatever the symbol is.\<close>

lemma GetOrder_wire:
  "wire (fst (GetOrder env e stockType id')) =
     wire (fst (getAuthJSON env e (host e)
       [''method=order_info'', ''coin_type='' @ lookupString (stockMap e) stockType, ''id='' @ id']
       [''market=cny'']))"
  by (simp add: GetOrder_def Let_def Do_def split: prod.splits sum.splits)

lemma CancelOrder_wire:
  "wire (fst (CancelOrder env e order)) =
     wire (fst (getAuthJSON env e (host e)
       [''method=cancel_order'', ''coin_type='' @ lookupString (stockMap e) (StockType order),
        ''id='' @ ID order]
       [''market=cny'']))"
  by (simp add: CancelOrder_def Let_def Do_def split: prod.splits sum.splits)

text \<open>
  C6. The claim: every operation, \<^verbatim>\<open>GetOrder\<close> and \<^verbatim>\<open>CancelOrder\<close> included, makes no network
  call on a symbol outside \<^verbatim>\<open>stockMap\<close>. \<^verbatim>\<open>Buy\<close>, \<^verbatim>\<open>Sell\<close>, \<^verbatim>\<open>GetOrders\<close>, \<^verbatim>\<open>GetTrades\<close>, \<^verbatim>\<open>GetTicker\<close>
  and \<^verbatim>\<open>GetRecords\<close> do test the symbol (\<open>unrecognized_symbol\<close>); \<^verbatim>\<open>GetOrder\<close> and
  \<^verbatim>\<open>CancelOrder\<close> do not: on the symbol \<open>XYZ\<close> of a new adapter each of them posts a signed
  request whose \<open>coin_type\<close> is empty.
\<close>

theorem C6_GetOrder_posts:
  "stockMap (NewHuobi opt :: ('j, 'f::zero) Huobi) ''XYZ'' = None
   \<and> wire (fst (GetOrder env (NewHuobi opt :: ('j, 'f) Huobi) ''XYZ'' ''1'')) =
       [POST ''https://api.huobi.com/apiv3''
         (sort [''method=order_info'', ''coin_type='', ''id=1'',
                ''access_key='' @ AccessKey opt, ''secret_key='' @ SecretKey opt,
                ''created='' @ SprintInt (now env)]
          @ [''sign='' @ signMd5 env
               (sort [''method=order_info'', ''coin_type='', ''id=1'',
                      ''access_key='' @ AccessKey opt, ''secret_key='' @ SecretKey opt,
                      ''created='' @ SprintInt (now env)])]
          @ [''market=cny''])]
   \<and> wire (fst (CancelOrder env (NewHuobi opt :: ('j, 'f) Huobi)
               \<lparr>ID = ''1'', Price = 0, Amount = 0, DealAmount = 0, OrderType = 1, StockType = ''XYZ''\<rparr>)) =
       [POST ''https://api.huobi.com/apiv3''
         (sort [''method=cancel_order'', ''coin_type='', ''id=1'',
                ''access_key='' @ AccessKey opt, ''secret_key='' @ SecretKey opt,
                ''created='' @ SprintInt (now env)]
          @ [''sign='' @ signMd5 env
               (sort [''method=cancel_order'', ''coin_type='', ''id=1'',
                      ''access_key='' @ AccessKey opt, ''secret_key='' @ SecretKey opt,
                      ''created='' @ SprintInt (now env)])]
          @ [''market=cny''])]"
proof -
  let ?e = "NewHuobi opt :: ('j, 'f) Huobi"
  have e: "stockMap ?e ''XYZ'' = None" "wire ?e = []" "host ?e = ''https://api.huobi.com/apiv3''"
    "AccessKey (option ?e) = AccessKey opt" "SecretKey (option ?e) = SecretKey opt"
    by (simp_all add: NewHuobi_def Let_def)
  have l: "lookupString (stockMap ?e) ''XYZ'' = []"
    using e(1) by (simp add: lookupString_def)
  have g: "wire (fst (GetOrder env ?e ''XYZ'' ''1'')) =
       [POST ''https://api.huobi.com/apiv3''
         (sort [''method=order_info'', ''coin_type='', ''id=1'',
                ''access_key='' @ AccessKey opt, ''secret_key='' @ SecretKey opt,
                ''created='' @ SprintInt (now env)]
          @ [''sign='' @ signMd5 env
               (sort [''method=order_info'', ''coin_type='', ''id=1'',
                      ''access_key='' @ AccessKey opt, ''secret_key='' @ SecretKey opt,
                      ''created='' @ SprintInt (now env)])]
          @ [''market=cny''])]"
    unfolding GetOrder_wire getAuthJSON_wire e l by simp
  have c: "wire (fst (CancelOrder env ?e
               \<lparr>ID = ''1'', Price = 0, Amount = 0, DealAmount = 0, OrderType = 1, StockType = ''XYZ''\<rparr>)) =
       [POST ''https://api.huobi.com/apiv3''
         (sort [''method=cancel_order'', ''coin_type='', ''id=1'',
                ''access_key='' @ AccessKey opt, ''secret_key='' @ SecretKey opt,
                ''created='' @ SprintInt (now env)]
          @ [''sign='' @ signMd5 env
               (sort [''method=cancel_order'', ''coin_type='', ''id=1'',
                      ''access_key='' @ AccessKey opt, ''secret_key='' @ SecretKey opt,
                      ''created='' @ SprintInt (now env)])]
          @ [''market=cny''])]"
    unfolding CancelOrder_wire getAuthJSON_wire e by (simp add: l)
  from e(1) g c show ?thesis by simp
qed

subsection \<open>The vendor's code\<close>

text \<open>A transport that always answers, and a decoder for that answer.\<close>

lemma getAuthJSON_decoded:
  assumes "\<And>url params. post env url params = Inr resp" and "NewJson env resp = Inr json"
  shows "snd (getAuthJSON env e url params optionals) = Inr json"
  using assms by (simp add: getAuthJSON_def Let_def)

lemma getAuthJSON_case:
  assumes "\<And>url params. post env url params = Inr resp" and "NewJson env resp = Inr json"
  shows "(case getAuthJSON env e url params optionals of
            (e1, Inl err) \<Rightarrow> f e1 err
          | (e1, Inr j) \<Rightarrow> g e1 j)
         = g (fst (getAuthJSON env e url params optionals)) json"
  using getAuthJSON_decoded [OF assms, of e url params optionals]
  by (cases "getAuthJSON env e url params optionals") (auto split: sum.splits)

text \<open>
  C7. The claim: any non-zero code, negative ones included, is a hard failure of every
  operation. The test is \<^verbatim>\<open>code > 0\<close>: with the code \<open>-1\<close> \<^verbatim>\<open>GetAccount\<close> returns an account.
  \<^verbatim>\<open>GetTicker\<close> reads no code: a response with code 1 and both sides of the book gives
  a ticker.
\<close>

theorem C7_counterexample:
  "snd (GetAccount (stub (Inr ''{}'') (Inr (JObject [(''code'', JNumber (- 1)), (''total'', JNumber 7)])))
         (fresh ''ak'' ''sk'')) \<noteq> None
   \<and> snd (GetTicker (stub (Inr ''{}'')
              (Inr (JObject [(''code'', JNumber 1),
                             (''bids'', JArray [JArray [JNumber 10, JNumber 1]]),
                             (''asks'', JArray [JArray [JNumber 11, JNumber 1]])])))
         (fresh ''ak'' ''sk'') ''BTC'' []) \<noteq> None"
  by (simp add: GetAccount_def GetTicker_def getAuthJSON_def stub_def fresh_def NewHuobi_def
      depths_def Let_def Do_def)

text \<open>
  C7, amended. For each of the seven authenticated operations (\<^verbatim>\<open>GetAccount\<close>, \<^verbatim>\<open>Buy\<close>, \<^verbatim>\<open>Sell\<close>,
  \<^verbatim>\<open>GetOrder\<close>, \<^verbatim>\<open>CancelOrder\<close>, \<^verbatim>\<open>GetOrders\<close>, \<^verbatim>\<open>GetTrades\<close>), a decoded response whose code is
  strictly positive is a hard failure: the operation returns its zero value (no
  account, the empty id, no order, \<open>False\<close>, no orders).
\<close>

theorem C7_positive_code_fails:
  assumes "\<And>url params. post env url params = Inr resp" and "NewJson env resp = Inr json"
    and "0 < IntMust env (Get env json ''code'')"
  shows "snd (GetAccount env e) = None
       \<and> snd (Buy env e stockType price amount msgs) = []
       \<and> snd (Sell env e stockType price amount msgs) = []
       \<and> snd (GetOrder env e stockType id') = None
       \<and> snd (CancelOrder env e order) = False
       \<and> snd (GetOrders env e stockType) = []
       \<and> snd (GetTrades env e stockType) = []"
proof -
  note c = getAuthJSON_case [OF assms(1,2)]
  have 1: "snd (GetAccount env e) = None"
    using assms(3) by (simp add: GetAccount_def Let_def c)
  have 2: "snd (Buy env e stockType price amount msgs) = []"
    using assms(3) by (simp add: Buy_def Let_def c)
  have 3: "snd (Sell env e stockType price amount msgs) = []"
    using assms(3) by (simp add: Sell_def Let_def c)
  have 4: "snd (GetOrder env e stockType id') = None"
    using assms(3) by (simp add: GetOrder_def Let_def c)
  have 5: "snd (CancelOrder env e order) = False"
    using assms(3) by (simp add: CancelOrder_def Let_def c)
  have 6: "snd (GetOrders env e stockType) = []"
    using assms(3) by (simp add: GetOrders_def Let_def c)
  have 7: "snd (GetTrades env e stockType) = []"
    using assms(3) by (simp add: GetTrades_def Let_def c)
  from 1 2 3 4 5 6 7 show ?thesis by blast
qed

theorem C7_positive_code_fails_witness:
  "snd (GetAccount (stub (Inr ''{}'') (Inr (JObject [(''code'', JNumber 5), (''total'', JNumber 7)])))
         (fresh ''ak'' ''sk'')) = None
   \<and> snd (Buy (stub (Inr ''{}'') (Inr (JObject [(''code'', JNumber 5), (''id'', JNumber 42)])))
         (fresh ''ak'' ''sk'') ''BTC'' 100 1 []) = []
   \<and> snd (GetOrder (stub (Inr ''{}'') (Inr (JObject [(''code'', JNumber 5), (''id'', JNumber 42)])))
         (fresh ''ak'' ''sk'') ''BTC'' ''42'') = None"
  using C7_positive_code_fails [of "stub (Inr ''{}'') (Inr (JObject [(''code'', JNumber 5), (''total'', JNumber 7)]))"
          "''{}''" "JObject [(''code'', JNumber 5), (''total'', JNumber 7)]" "fresh ''ak'' ''sk''"]
        C7_positive_code_fails [of "stub (Inr ''{}'') (Inr (JObject [(''code'', JNumber 5), (''id'', JNumber 42)]))"
          "''{}''" "JObject [(''code'', JNumber 5), (''id'', JNumber 42)]" "fresh ''ak'' ''sk''" "''BTC''" 100 1 "[]" "''42''"]
  by (simp add: stub_def)

subsection \<open>Signing\<close>








subsection \<open>The depth size of GetTicker\<close>





end
